theory Spec2Isabelle
  imports Complex_Main "HOL-Library.Multiset" "HOL-Library.Char_ord" "HOL-Library.List_Lexorder"
begin

section \<open>Strings, sizes and failures\<close>

text \<open>
  The program is a single C++ translation unit. \<open>std::string\<close> is a \<open>string\<close> (a list of
  bytes), \<open>size_t\<close> and \<open>uintmax_t\<close> are 64-bit and modelled as \<open>nat\<close> with the wrap-around
  written out, \<open>std::string::npos\<close> is \<open>None\<close>. What the source leaves undefined (calling
  \<open>back()\<close> on an empty string) and what it throws (\<open>std::out_of_range\<close> from
  \<open>std::stoull\<close>) are values of \<open>error\<close>.
\<close>

datatype error = UndefinedBehaviour | OutOfRange | InvalidArgument

text \<open>\<open>a - b\<close> on \<open>size_t\<close>: the difference modulo \<open>2 ^ 64\<close>.\<close>

definition size_t_sub :: "nat \<Rightarrow> nat \<Rightarrow> nat" where
  "size_t_sub a b = (if b \<le> a then a - b else a + 2 ^ 64 - b)"

text \<open>\<open>std::string::back\<close>: the last character; the behaviour is undefined on an empty string.\<close>

definition string_back :: "string \<Rightarrow> error + char" where
  "string_back s = (if s = [] then Inl UndefinedBehaviour else Inr (last s))"

text \<open>
  \<open>std::string::find_last_of(c, pos)\<close>: the greatest index \<open>i \<le> pos\<close> with \<open>s[i] = c\<close>, the
  search starting at \<open>min pos (size - 1)\<close> and walking down to index 0.
\<close>

fun rfind_from :: "string \<Rightarrow> char \<Rightarrow> nat \<Rightarrow> nat option" where
  "rfind_from s c 0 = (if s ! 0 = c then Some 0 else None)"
| "rfind_from s c (Suc i) = (if s ! Suc i = c then Some (Suc i) else rfind_from s c i)"

definition find_last_of :: "string \<Rightarrow> char \<Rightarrow> nat \<Rightarrow> nat option" where
  "find_last_of s c pos = (if s = [] then None else rfind_from s c (min pos (length s - 1)))"

section \<open>FtpClient: the remote base address\<close>

record FtpClient =
  base_url :: string
  user_password :: string

text \<open>
  \<open>ensure_trailing_slash\<close>: \<open>if (url.back() != '/') url += '/'; return url;\<close>
\<close>

definition ensure_trailing_slash :: "string \<Rightarrow> error + string" where
  "ensure_trailing_slash url =
     (case string_back url of
        Inl e \<Rightarrow> Inl e
      | Inr c \<Rightarrow> Inr (if c \<noteq> CHR ''/'' then url @ ''/'' else url))"

definition connect :: "string \<Rightarrow> string \<Rightarrow> FtpClient \<Rightarrow> error + FtpClient" where
  "connect url userpass c =
     (case ensure_trailing_slash url of
        Inl e \<Rightarrow> Inl e
      | Inr u \<Rightarrow> Inr (c\<lparr>base_url := u, user_password := userpass\<rparr>))"

text \<open>
  The two statements after the \<open>if (dir_name == "..")\<close> block of \<open>change_directory\<close>:
  \<open>base_url = ensure_trailing_slash(base_url) + dir_name;
  base_url = ensure_trailing_slash(base_url);\<close>
\<close>

definition append_directory :: "string \<Rightarrow> FtpClient \<Rightarrow> error + FtpClient" where
  "append_directory dir_name c =
     (case ensure_trailing_slash (base_url c) of
        Inl e \<Rightarrow> Inl e
      | Inr u \<Rightarrow>
          (case ensure_trailing_slash (u @ dir_name) of
             Inl e \<Rightarrow> Inl e
           | Inr u' \<Rightarrow> Inr (c\<lparr>base_url := u'\<rparr>)))"

text \<open>
  \<open>change_directory\<close>. For \<open>".."\<close> the last separator at or before index \<open>length - 2\<close> is
  looked up. Above index 5 the base is cut after it and the function returns; when there is
  none the function returns; in the remaining case (a separator at index 5 or below) control
  leaves the \<open>if\<close> block and reaches the two appending statements.
\<close>

definition change_directory :: "string \<Rightarrow> FtpClient \<Rightarrow> error + FtpClient" where
  "change_directory dir_name c =
     (if dir_name = ''..'' then
        (case find_last_of (base_url c) CHR ''/'' (size_t_sub (length (base_url c)) 2) of
           Some last_slash \<Rightarrow>
             if last_slash > 5 then Inr (c\<lparr>base_url := take (last_slash + 1) (base_url c)\<rparr>)
             else append_directory dir_name c
         | None \<Rightarrow> Inr c)
      else append_directory dir_name c)"

text \<open>The client as \<open>main\<close> constructs it: both strings empty.\<close>

definition new_client :: FtpClient where
  "new_client = \<lparr>base_url = [], user_password = []\<rparr>"


section \<open>The listing parser\<close>

text \<open>
  Character classes of the regular expression, as \<open>std::regex\<close> (ECMAScript grammar, the
  classic locale) reads them: \<open>\s\<close> is \<open>isspace\<close>, \<open>\d\<close> and \<open>[0-9]\<close> are the ten digits,
  \<open>[^\s]\<close> is the complement of \<open>\s\<close>, \<open>[drwx\-]\<close> is the five characters listed, and \<open>.\<close>
  is every character but the line terminators.
\<close>

definition isspace :: "char \<Rightarrow> bool" where
  "isspace c = (c \<in> set [CHR '' '', CHR 0x09, CHR 0x0A, CHR 0x0B, CHR 0x0C, CHR 0x0D])"

definition isdigit :: "char \<Rightarrow> bool" where
  "isdigit c = (c \<in> set ''0123456789'')"

definition nonspace :: "char \<Rightarrow> bool" where
  "nonspace c = (\<not> isspace c)"

definition perm_char :: "char \<Rightarrow> bool" where
  "perm_char c = (c \<in> set ''drwx-'')"

definition any_char :: "char \<Rightarrow> bool" where
  "any_char c = (c \<noteq> CHR 0x0A \<and> c \<noteq> CHR 0x0D)"

text \<open>
  The expression is a sequence of pieces \<open>C+\<close>, each a character class repeated once or
  more, some of them capture groups. \<open>std::regex_match\<close> matches the whole line; a greedy
  \<open>+\<close> takes the longest run first and gives characters back one at a time while the rest
  of the expression fails. \<open>try_lengths\<close> is that backtracking for one piece, \<open>k\<close> being the
  matcher of the pieces after it; the result is the list of captured substrings.
\<close>

type_synonym piece = "(char \<Rightarrow> bool) \<times> bool"

fun try_lengths :: "(string \<Rightarrow> string list option) \<Rightarrow> bool \<Rightarrow> string \<Rightarrow> nat \<Rightarrow> string list option" where
  "try_lengths k cap s 0 = None"
| "try_lengths k cap s (Suc n) =
     (case k (drop (Suc n) s) of
        Some caps \<Rightarrow> Some (if cap then take (Suc n) s # caps else caps)
      | None \<Rightarrow> try_lengths k cap s n)"

primrec regex_match :: "piece list \<Rightarrow> string \<Rightarrow> string list option" where
  "regex_match [] s = (if s = [] then Some [] else None)"
| "regex_match (p # ps) s =
     try_lengths (regex_match ps) (snd p) s (length (takeWhile (fst p) s))"

text \<open>
  \<open>([drwx\-]+)\s+\d+\s+[^\s]+\s+[^\s]+\s+([0-9]+)\s+[^\s]+\s+[^\s]+\s+(.+)\<close>
\<close>

definition re :: "piece list" where
  "re = [(perm_char, True), (isspace, False), (isdigit, False), (isspace, False),
         (nonspace, False), (isspace, False), (nonspace, False), (isspace, False),
         (isdigit, True), (isspace, False), (nonspace, False), (isspace, False),
         (nonspace, False), (isspace, False), (any_char, True)]"

text \<open>
  \<open>std::stoull\<close> on a string that starts with a digit (the only call passes a match of
  \<open>[0-9]+\<close>): the value of the leading digits, \<open>std::out_of_range\<close> when it does not fit
  \<open>unsigned long long\<close>, \<open>std::invalid_argument\<close> when there is no digit.
\<close>

definition digit_value :: "char \<Rightarrow> nat" where
  "digit_value c = of_char c - 48"

definition decimal_value :: "string \<Rightarrow> nat" where
  "decimal_value s = foldl (\<lambda>a c. 10 * a + digit_value c) 0 s"

definition stoull :: "string \<Rightarrow> error + nat" where
  "stoull s =
     (let ds = takeWhile isdigit s in
      if ds = [] then Inl InvalidArgument
      else if decimal_value ds > 2 ^ 64 - 1 then Inl OutOfRange
      else Inr (decimal_value ds))"

text \<open>
  \<open>FileEntry\<close> of \<open>LocalFileManager\<close> and \<open>FtpEntry\<close> of \<open>FtpClient\<close> have the same three
  fields.
\<close>

record FileEntry =
  name :: string
  is_directory :: bool
  size_bytes :: nat

type_synonym FtpEntry = FileEntry

text \<open>
  \<open>parse_ftp_entry\<close>. \<open>matches.size() == 4\<close> is the whole match and three groups. The
  exception of \<open>std::stoull\<close> is not caught here.
\<close>

definition parse_ftp_entry :: "string \<Rightarrow> error + FtpEntry" where
  "parse_ftp_entry line =
     (case regex_match re line of
        Some [perms, sz, nm] \<Rightarrow>
          (case stoull sz of
             Inl e \<Rightarrow> Inl e
           | Inr n \<Rightarrow> Inr \<lparr>name = nm, is_directory = (hd perms = CHR ''d''), size_bytes = n\<rparr>)
      | _ \<Rightarrow> Inr \<lparr>name = line, is_directory = False, size_bytes = 0\<rparr>)"

section \<open>Human-readable sizes\<close>

text \<open>
  \<open>static_cast<double>(size)\<close>: a 64-bit unsigned value becomes the nearest double, ties to
  the even significand of 53 bits. Doubles are modelled by the rational they denote: every
  value below is an integer below \<open>2 ^ 64 + 1\<close> divided by a power of 1024, which a double
  holds exactly, so the divisions and comparisons of the source are exact.
\<close>

fun bit_length :: "nat \<Rightarrow> nat" where
  "bit_length n = (if n = 0 then 0 else Suc (bit_length (n div 2)))"

definition to_double :: "nat \<Rightarrow> rat" where
  "to_double n =
     (if n < 2 ^ 53 then of_nat n
      else let e = bit_length n - 53; q = n div 2 ^ e; r = n mod 2 ^ e; half = 2 ^ (e - 1)
           in of_nat ((if r > half \<or> (r = half \<and> odd q) then q + 1 else q) * 2 ^ e))"

text \<open>\<open>while (d_size >= 1024.0 && i < 4) { d_size /= 1024.0; i++; }\<close>\<close>

function scale_loop :: "rat \<Rightarrow> nat \<Rightarrow> rat \<times> nat" where
  "scale_loop d_size i =
     (if d_size \<ge> 1024 \<and> i < 4 then scale_loop (d_size / 1024) (i + 1) else (d_size, i))"
  by pat_completeness auto
termination
  by (relation "measure (\<lambda>(d, i). 4 - i)") auto

declare scale_loop.simps [simp del]


text \<open>
  \<open>ss << std::fixed << std::setprecision(p) << d\<close> for \<open>d \<ge> 0\<close>: the decimal expansion
  rounded to \<open>p\<close> places, ties to even, with no decimal point when \<open>p = 0\<close>.
\<close>

definition round_half_even :: "rat \<Rightarrow> nat" where
  "round_half_even x =
     (let f = nat \<lfloor>x\<rfloor>; r = x - of_nat f
      in if r < 1 / 2 then f else if r > 1 / 2 then f + 1 else if even f then f else f + 1)"

definition digit_char :: "nat \<Rightarrow> char" where
  "digit_char n = ''0123456789'' ! (n mod 10)"

fun show_nat :: "nat \<Rightarrow> string" where
  "show_nat n = (if n < 10 then [digit_char n] else show_nat (n div 10) @ [digit_char n])"

definition pad_zeros :: "nat \<Rightarrow> string \<Rightarrow> string" where
  "pad_zeros p s = replicate (p - length s) (CHR ''0'') @ s"

definition print_fixed :: "nat \<Rightarrow> rat \<Rightarrow> string" where
  "print_fixed p d =
     (let n = round_half_even (d * 10 ^ p)
      in if p = 0 then show_nat n
         else show_nat (n div 10 ^ p) @ ''.'' @ pad_zeros p (show_nat (n mod 10 ^ p)))"

definition units :: "string list" where
  "units = [''B'', ''KB'', ''MB'', ''GB'', ''TB'']"

definition format_size_human :: "nat \<Rightarrow> string" where
  "format_size_human size_arg =
     (if size_arg = 0 then ''0 B''
      else let (d_size, i) = scale_loop (to_double size_arg) 0
           in print_fixed (if i = 0 then 0 else 1) d_size @ '' '' @ units ! i)"

section \<open>Listings\<close>

text \<open>
  One printed row of a listing: the type column, the name column and the size column
  (padding and colour escapes left out).
\<close>

record row =
  type_str :: string
  name_str :: string
  size_str :: string

definition render_row :: "FileEntry \<Rightarrow> row" where
  "render_row entry =
     \<lparr>type_str = (if is_directory entry then ''DIR'' else ''FILE''),
      name_str = name entry,
      size_str = (if \<not> is_directory entry then format_size_human (size_bytes entry) else ''-'')\<rparr>"

text \<open>\<open>LocalFileManager::compareFiles\<close>; \<open><\<close> on \<open>std::string\<close> compares bytes.\<close>

definition compareFiles :: "FileEntry \<Rightarrow> FileEntry \<Rightarrow> bool" where
  "compareFiles a b =
     (if is_directory a \<noteq> is_directory b then is_directory a > is_directory b
      else name a < name b)"

text \<open>
  The order the specification asks of a listing, in its words: directories before files,
  and by name within each group.
\<close>

definition listing_order :: "FileEntry \<Rightarrow> FileEntry \<Rightarrow> bool" where
  "listing_order a b =
     ((is_directory b \<longrightarrow> is_directory a) \<and> (is_directory a = is_directory b \<longrightarrow> name a \<le> name b))"

text \<open>
  \<open>std::sort(first, last, comp)\<close> of the standard library leaves a permutation in which no
  element is \<open>comp\<close>-less than an earlier one; an insertion sort stands for it.
\<close>

fun insert_by :: "('a \<Rightarrow> 'a \<Rightarrow> bool) \<Rightarrow> 'a \<Rightarrow> 'a list \<Rightarrow> 'a list" where
  "insert_by cmp x [] = [x]"
| "insert_by cmp x (y # ys) = (if cmp x y then x # y # ys else y # insert_by cmp x ys)"

definition std_sort :: "('a \<Rightarrow> 'a \<Rightarrow> bool) \<Rightarrow> 'a list \<Rightarrow> 'a list" where
  "std_sort cmp xs = foldr (insert_by cmp) xs []"

text \<open>
  \<open>LocalFileManager::list_directory\<close>, given the entries the directory iterator yields:
  they are collected, sorted and printed.
\<close>

definition local_list_directory :: "FileEntry list \<Rightarrow> row list" where
  "local_list_directory entries = map render_row (std_sort compareFiles entries)"

text \<open>
  \<open>FtpClient::list_directory\<close>, given what the transfer returns (\<open>None\<close> when it fails):
  \<open>std::getline(ss, line, '\n')\<close> cuts the reply into lines, and every non-empty line is
  parsed and printed at once, in the order of the reply. An exception of the parser leaves
  the function.
\<close>

fun split_lines :: "string \<Rightarrow> string \<Rightarrow> string list" where
  "split_lines acc [] = (if acc = [] then [] else [acc])"
| "split_lines acc (c # cs) =
     (if c = CHR 0x0A then acc # split_lines [] cs else split_lines (acc @ [c]) cs)"

fun print_lines :: "string list \<Rightarrow> error + row list" where
  "print_lines [] = Inr []"
| "print_lines (line # lines) =
     (if line \<noteq> [] then
        (case parse_ftp_entry line of
           Inl e \<Rightarrow> Inl e
         | Inr entry \<Rightarrow>
             (case print_lines lines of Inl e \<Rightarrow> Inl e | Inr rows \<Rightarrow> Inr (render_row entry # rows)))
      else print_lines lines)"

definition list_directory :: "string option \<Rightarrow> error + row list option" where
  "list_directory reply =
     (case reply of
        None \<Rightarrow> Inr None
      | Some list_data \<Rightarrow>
          (case print_lines (split_lines [] list_data) of
             Inl e \<Rightarrow> Inl e
           | Inr rows \<Rightarrow> Inr (Some rows)))"

section \<open>The shell loop\<close>

text \<open>
  \<open>std::cin\<close>: the bytes not yet read and the two state bits the loop can meet.
  \<open>std::getline(std::cin, command_line)\<close> first builds a sentry: on a stream that is not
  good it sets \<open>failbit\<close> and leaves the string as it is. Otherwise the string is erased and
  characters are moved up to a newline, which is dropped; running out of characters sets
  \<open>eofbit\<close>, and \<open>failbit\<close> too when nothing was moved.
\<close>

record istream =
  buffer :: string
  eofbit :: bool
  failbit :: bool

definition getline :: "istream \<Rightarrow> string \<Rightarrow> istream \<times> string" where
  "getline is str =
     (if eofbit is \<or> failbit is then (is\<lparr>failbit := True\<rparr>, str)
      else if CHR 0x0A \<in> set (buffer is) then
        (is\<lparr>buffer := tl (dropWhile (\<lambda>c. c \<noteq> CHR 0x0A) (buffer is))\<rparr>,
         takeWhile (\<lambda>c. c \<noteq> CHR 0x0A) (buffer is))
      else (is\<lparr>buffer := [], eofbit := True, failbit := (buffer is = [])\<rparr>, buffer is))"

text \<open>\<open>split_command\<close>: \<open>while (ss >> item) parts.push_back(item);\<close>\<close>

fun split_words :: "string \<Rightarrow> string \<Rightarrow> string list" where
  "split_words item [] = (if item = [] then [] else [item])"
| "split_words item (c # cs) =
     (if isspace c then (if item = [] then split_words [] cs else item # split_words [] cs)
      else split_words (item @ [c]) cs)"

definition split_command :: "string \<Rightarrow> string list" where
  "split_command command_line_arg = split_words [] command_line_arg"

definition tolower :: "char \<Rightarrow> char" where
  "tolower c =
     (case map_of (zip ''ABCDEFGHIJKLMNOPQRSTUVWXYZ'' ''abcdefghijklmnopqrstuvwxyz'') c of
        Some l \<Rightarrow> l
      | None \<Rightarrow> c)"

text \<open>
  What the loop needs from outside: the listing the server returns for an address (\<open>None\<close>
  when the transfer fails) and whether a local file can be opened for reading.
\<close>

record world =
  listing :: "string \<Rightarrow> string option"
  readable :: "string \<Rightarrow> bool"

text \<open>
  \<open>create_remote_directory\<close>, \<open>delete_remote_path\<close>, \<open>download\<close> and \<open>upload\<close> build
  \<open>ensure_trailing_slash(base_url) + name\<close> and hand it to the transfer; the client's
  strings stay as they are.
\<close>

definition remote_request :: "FtpClient \<Rightarrow> error + FtpClient" where
  "remote_request c =
     (case ensure_trailing_slash (base_url c) of Inl e \<Rightarrow> Inl e | Inr full_url \<Rightarrow> Inr c)"

text \<open>
  The \<open>if\<close> chain of \<open>main\<close> after the test for \<open>exit\<close>, as far as it touches the client: the
  client after the command, or the failure that ends the process. The commands of
  \<open>LocalFileManager\<close> and the messages printed do not touch it.
\<close>

definition dispatch :: "world \<Rightarrow> string \<Rightarrow> string list \<Rightarrow> FtpClient \<Rightarrow> error + FtpClient" where
  "dispatch w command args c =
     (if command = ''help'' then Inr c
      else if command = ''connect'' then
        (if length args \<ge> 2
         then connect (args ! 1) (if length args \<ge> 3 then args ! 2 else []) c
         else Inr c)
      else if command = ''ls'' \<or> command = ''dir'' then
        (case list_directory (listing w (base_url c)) of Inl e \<Rightarrow> Inl e | Inr rows \<Rightarrow> Inr c)
      else if command = ''cd'' then
        (if length args = 2 then change_directory (args ! 1) c else Inr c)
      else if command = ''mkdir'' then
        (if length args = 2 then remote_request c else Inr c)
      else if command = ''rm'' then
        (if length args = 3 then remote_request c else Inr c)
      else if command = ''get'' then
        (if length args = 3 then remote_request c else Inr c)
      else if command = ''put'' then
        (if length args = 3 \<and> readable w (args ! 1) then remote_request c else Inr c)
      else Inr c)"

record shell =
  cin :: istream
  command_line :: string
  ftp_client :: FtpClient

text \<open>
  How the process ends: \<open>main\<close> returns a code, or an uncaught exception or undefined
  behaviour ends it.
\<close>

datatype outcome = Returned nat | Terminated error

text \<open>
  The \<open>while (true)\<close> loop of \<open>main\<close>. It may run for ever, so its result is an option: \<open>None\<close>
  is a loop that never leaves.
\<close>

partial_function (option) main_loop :: "world \<Rightarrow> shell \<Rightarrow> outcome option" where
  "main_loop w st =
     (let (is, line) = getline (cin st) (command_line st);
          args = split_command line
      in if args = [] then main_loop w (st\<lparr>cin := is, command_line := line\<rparr>)
         else let command = map tolower (args ! 0)
              in if command = ''exit'' then Some (Returned 0)
                 else (case dispatch w command args (ftp_client st) of
                         Inl e \<Rightarrow> Some (Terminated e)
                       | Inr c \<Rightarrow> main_loop w (st\<lparr>cin := is, command_line := line, ftp_client := c\<rparr>)))"

declare main_loop.simps [code]

text \<open>
  A state in which the stream has ended or failed and the line it holds has no token.
\<close>

definition at_end :: "shell \<Rightarrow> bool" where
  "at_end st = ((eofbit (cin st) \<or> failbit (cin st)) \<and> split_command (command_line st) = [])"

text \<open>The state \<open>main\<close> starts the loop in, for the bytes standard input will deliver.\<close>

definition start :: "string \<Rightarrow> shell" where
  "start input =
     \<lparr>cin = \<lparr>buffer = input, eofbit = False, failbit = False\<rparr>,
      command_line = [],
      ftp_client = new_client\<rparr>"

text \<open>
  \<open>std::filesystem::path(p).filename()\<close> on a POSIX system: what follows the last separator,
  which is empty for a path that ends with one.
\<close>

definition filename :: "string \<Rightarrow> string" where
  "filename p = rev (takeWhile (\<lambda>c. c \<noteq> CHR ''/'') (rev p))"

text \<open>The prompt of one iteration, for the current local directory and the remote base.\<close>

definition prompt :: "string \<Rightarrow> string \<Rightarrow> string" where
  "prompt current_path base =
     [CHR 0x0A] @ ''local:'' @ filename current_path @ '' | remote:'' @ filename base @ ''> ''"

section \<open>Properties of the remote base address\<close>

lemmas cd_defs = change_directory_def find_last_of_def size_t_sub_def append_directory_def
  ensure_trailing_slash_def string_back_def



lemma ensure_trailing_slash_defined:
  "u \<noteq> [] \<Longrightarrow> \<exists>v. ensure_trailing_slash u = Inr v"
  by (simp add: ensure_trailing_slash_def string_back_def)



lemma rfind_from_skip:
  "k \<le> i \<Longrightarrow> s ! k = ch \<Longrightarrow> (\<forall>j. k < j \<and> j \<le> i \<longrightarrow> s ! j \<noteq> ch) \<Longrightarrow> rfind_from s ch i = Some k"
proof (induction i)
  case 0
  then show ?case by simp
next
  case (Suc i)
  show ?case
  proof (cases "k = Suc i")
    case True
    with Suc.prems show ?thesis by simp
  next
    case False
    with Suc.prems have "k \<le> i" by simp
    moreover from Suc.prems False have "s ! Suc i \<noteq> ch" by auto
    moreover from Suc.prems have "\<forall>j. k < j \<and> j \<le> i \<longrightarrow> s ! j \<noteq> ch" by auto
    ultimately show ?thesis using Suc.IH Suc.prems(2) by simp
  qed
qed











text \<open>
  C1. The claim: for the base \<open>ftp://host/\<close> the change of directory to \<open>..\<close> leaves the base
  as it is. In the code the last separator before the final character is at index 5, which is
  neither above 5 nor \<open>npos\<close>, so neither \<open>return\<close> is reached and \<open>..\<close> is appended: the base
  becomes \<open>ftp://host/../\<close>.
\<close>

theorem ascend_at_root_appends:
  "change_directory ''..'' \<lparr>base_url = ''ftp://host/'', user_password = []\<rparr>
     = Inr \<lparr>base_url = ''ftp://host/../'', user_password = []\<rparr>"
  by (simp add: cd_defs)




text \<open>
  C6. The claim: before any \<open>connect\<close> the change of directory with a name other than \<open>..\<close>
  is well defined on the empty base. In the code \<open>ensure_trailing_slash\<close> reads \<open>url.back()\<close>
  of the empty string, which is outside the string.
\<close>

theorem change_directory_before_connect:
  "base_url new_client = [] \<and> ensure_trailing_slash [] = Inl UndefinedBehaviour
   \<and> change_directory ''sub'' new_client = Inl UndefinedBehaviour"
  by (simp add: cd_defs new_client_def)

text \<open>
  C9. Descending into a directory and then ascending gives the base back: for a base that
  ends with a separator and has at least seven characters (as every address with a scheme, a
  host and a path has; \<open>ftp://host/a/\<close> has thirteen), and a directory name that is one path
  segment, other than \<open>..\<close>.
\<close>

theorem descend_then_ascend:
  assumes "7 \<le> length (base_url c)" and "last (base_url c) = CHR ''/''"
    and "dir_name \<noteq> []" and "CHR ''/'' \<notin> set dir_name" and "dir_name \<noteq> ''..''"
  shows "\<exists>c1. change_directory dir_name c = Inr c1 \<and> change_directory ''..'' c1 = Inr c"
proof -
  let ?b = "base_url c"
  let ?s = "?b @ dir_name @ ''/''"
  let ?n = "length ?b"
  from assms(1) have b: "?b \<noteq> []" by auto
  from assms(3,4) have "last dir_name \<noteq> CHR ''/''" using last_in_set by metis
  with assms(2,3,5) b have down: "change_directory dir_name c = Inr (c\<lparr>base_url := ?s\<rparr>)"
    by (simp add: cd_defs)
  have at: "?s ! (?n - 1) = CHR ''/''"
    using b assms(2) by (simp add: nth_append last_conv_nth)
  have above: "\<forall>j. ?n - 1 < j \<and> j \<le> ?n + length dir_name - 1 \<longrightarrow> ?s ! j \<noteq> CHR ''/''"
  proof (intro allI impI)
    fix j assume j: "?n - 1 < j \<and> j \<le> ?n + length dir_name - 1"
    with assms(3) have "?n \<le> j" "j - ?n < length dir_name" by auto
    then have "?s ! j = dir_name ! (j - ?n)" "dir_name ! (j - ?n) \<in> set dir_name"
      by (simp_all add: nth_append)
    with assms(4) show "?s ! j \<noteq> CHR ''/''" by metis
  qed
  have "rfind_from ?s CHR ''/'' (?n + length dir_name - 1) = Some (?n - 1)"
    by (rule rfind_from_skip) (use at above in auto)
  moreover have "min (size_t_sub (length ?s) 2) (length ?s - 1) = ?n + length dir_name - 1"
    using assms(3) by (cases dir_name) (simp_all add: size_t_sub_def)
  ultimately have "find_last_of ?s CHR ''/'' (size_t_sub (length ?s) 2) = Some (?n - 1)"
    by (simp add: find_last_of_def)
  moreover have "5 < ?n - 1" using assms(1) by simp
  moreover have "take (?n - 1 + 1) ?s = ?b" using b by simp
  ultimately have "change_directory ''..'' (c\<lparr>base_url := ?s\<rparr>) = Inr c"
    by (simp add: change_directory_def)
  with down show ?thesis by simp
qed

theorem descend_then_ascend_witness:
  "7 \<le> length ''ftp://host/a/'' \<and> last ''ftp://host/a/'' = CHR ''/'' \<and> ''b'' \<noteq> []
   \<and> CHR ''/'' \<notin> set ''b'' \<and> ''b'' \<noteq> ''..''
   \<and> change_directory ''b'' \<lparr>base_url = ''ftp://host/a/'', user_password = []\<rparr>
       = Inr \<lparr>base_url = ''ftp://host/a/b/'', user_password = []\<rparr>
   \<and> change_directory ''..'' \<lparr>base_url = ''ftp://host/a/b/'', user_password = []\<rparr>
       = Inr \<lparr>base_url = ''ftp://host/a/'', user_password = []\<rparr>"
  using descend_then_ascend [of "\<lparr>base_url = ''ftp://host/a/'', user_password = []\<rparr>" "''b''"]
  by (simp add: cd_defs)

section \<open>Properties of the size formatter\<close>

lemmas fmt_defs = format_size_human_def to_double_def print_fixed_def round_half_even_def
  units_def digit_char_def pad_zeros_def scale_loop.simps






section \<open>Properties of the listing parser\<close>

lemmas parse_defs = parse_ftp_entry_def re_def isspace_def isdigit_def nonspace_def perm_char_def
  any_char_def stoull_def decimal_value_def digit_value_def

text \<open>
  C2. The claim: the line \<open>drwxr-xr-x 2 user group 4096 Jan 1 00:00 subdir\<close> parses to the
  name \<open>subdir\<close>, a directory, size 4096, and the line \<open>not a listing line\<close> to itself as a
  file of size 0. The expression has two fields between the size and the name, not three,
  so the code returns the name \<open>00:00 subdir\<close>; the second half holds.
\<close>

theorem parse_listing_lines:
  "parse_ftp_entry ''drwxr-xr-x 2 user group 4096 Jan 1 00:00 subdir''
     = Inr \<lparr>name = ''00:00 subdir'', is_directory = True, size_bytes = 4096\<rparr>
   \<and> parse_ftp_entry ''not a listing line''
     = Inr \<lparr>name = ''not a listing line'', is_directory = False, size_bytes = 0\<rparr>"
  by (simp add: parse_defs)

section \<open>Properties of the listings\<close>

lemma listing_order_compareFiles: "listing_order a b \<longleftrightarrow> \<not> compareFiles b a"
  by (auto simp: listing_order_def compareFiles_def split: if_splits)

lemma listing_order_trans: "listing_order a b \<Longrightarrow> listing_order b c \<Longrightarrow> listing_order a c"
  by (auto simp: listing_order_def)

lemma compareFiles_listing_order: "compareFiles a b \<Longrightarrow> listing_order a b"
  by (auto simp: listing_order_def compareFiles_def split: if_splits)

lemma set_insert_by: "set (insert_by cmp x ys) = insert x (set ys)"
  by (induction ys) auto

lemma mset_insert_by: "mset (insert_by cmp x ys) = add_mset x (mset ys)"
  by (induction ys) auto

lemma sorted_insert_by:
  "sorted_wrt listing_order ys \<Longrightarrow> sorted_wrt listing_order (insert_by compareFiles x ys)"
proof (induction ys)
  case Nil
  then show ?case by simp
next
  case (Cons y ys)
  show ?case
  proof (cases "compareFiles x y")
    case True
    then have xy: "listing_order x y" by (rule compareFiles_listing_order)
    have "\<forall>z\<in>set ys. listing_order x z"
      using Cons.prems xy listing_order_trans by auto
    with True xy Cons.prems show ?thesis by simp
  next
    case False
    then have "listing_order y x" by (simp add: listing_order_compareFiles)
    with False Cons show ?thesis by (auto simp: set_insert_by)
  qed
qed

lemma mset_std_sort: "mset (std_sort cmp xs) = mset xs"
  by (induction xs) (simp_all add: std_sort_def mset_insert_by)

lemma sorted_std_sort: "sorted_wrt listing_order (std_sort compareFiles xs)"
  by (induction xs) (simp_all add: std_sort_def sorted_insert_by)

lemma print_lines_order:
  "print_lines lines = Inr rows \<Longrightarrow>
   map Inr rows = map (map_sum id render_row \<circ> parse_ftp_entry) (filter (\<lambda>l. l \<noteq> []) lines)"
proof (induction lines arbitrary: rows)
  case Nil
  then show ?case by simp
next
  case (Cons l ls)
  then show ?case by (auto split: if_splits sum.splits)
qed

text \<open>
  C5, as the claim states it: the remote listing too renders directories first and names in
  order. A reply with the entries \<open>dirB\<close>, \<open>fileA\<close>, \<open>dirA\<close>, \<open>fileB\<close> is printed in that
  order, which is not the listing order.
\<close>

theorem remote_listing_keeps_reply_order:
  "list_directory (Some (''drwxr-xr-x 2 u g 4096 Jan 1 dirB'' @ [CHR 0x0A]
       @ ''-rw-r--r-- 1 u g 10 Jan 1 fileA'' @ [CHR 0x0A]
       @ ''drwxr-xr-x 2 u g 4096 Jan 1 dirA'' @ [CHR 0x0A]
       @ ''-rw-r--r-- 1 u g 2048 Jan 1 fileB'' @ [CHR 0x0A]))
   = Inr (Some [\<lparr>type_str = ''DIR'', name_str = ''dirB'', size_str = ''-''\<rparr>,
                \<lparr>type_str = ''FILE'', name_str = ''fileA'', size_str = ''10 B''\<rparr>,
                \<lparr>type_str = ''DIR'', name_str = ''dirA'', size_str = ''-''\<rparr>,
                \<lparr>type_str = ''FILE'', name_str = ''fileB'', size_str = ''2.0 KB''\<rparr>])
   \<and> \<not> sorted_wrt listing_order
        [\<lparr>name = ''dirB'', is_directory = True, size_bytes = 4096\<rparr>,
         \<lparr>name = ''fileA'', is_directory = False, size_bytes = 10\<rparr>,
         \<lparr>name = ''dirA'', is_directory = True, size_bytes = 4096\<rparr>,
         \<lparr>name = ''fileB'', is_directory = False, size_bytes = 2048\<rparr>]"
  by (simp add: list_directory_def parse_defs render_row_def fmt_defs listing_order_def)

text \<open>
  C5, amended: the local listing renders the entries of the directory sorted, directories
  before files and by name (bytewise) within each group; the remote listing renders the
  non-empty lines of the reply in the order of the reply.
\<close>

theorem listings_order:
  "local_list_directory entries = map render_row (std_sort compareFiles entries)
   \<and> mset (std_sort compareFiles entries) = mset entries
   \<and> sorted_wrt listing_order (std_sort compareFiles entries)
   \<and> (print_lines lines = Inr rows \<longrightarrow>
        map Inr rows = map (map_sum id render_row \<circ> parse_ftp_entry) (filter (\<lambda>l. l \<noteq> []) lines))"
  using print_lines_order
  by (simp add: local_list_directory_def mset_std_sort sorted_std_sort)

theorem listings_order_witness:
  "std_sort compareFiles
     [\<lparr>name = ''dirB'', is_directory = True, size_bytes = 0\<rparr>,
      \<lparr>name = ''fileA'', is_directory = False, size_bytes = 10\<rparr>,
      \<lparr>name = ''dirA'', is_directory = True, size_bytes = 0\<rparr>,
      \<lparr>name = ''fileB'', is_directory = False, size_bytes = 2048\<rparr>]
   = [\<lparr>name = ''dirA'', is_directory = True, size_bytes = 0\<rparr>,
      \<lparr>name = ''dirB'', is_directory = True, size_bytes = 0\<rparr>,
      \<lparr>name = ''fileA'', is_directory = False, size_bytes = 10\<rparr>,
      \<lparr>name = ''fileB'', is_directory = False, size_bytes = 2048\<rparr>]
   \<and> map name_str (local_list_directory
     [\<lparr>name = ''dirB'', is_directory = True, size_bytes = 0\<rparr>,
      \<lparr>name = ''fileA'', is_directory = False, size_bytes = 10\<rparr>,
      \<lparr>name = ''dirA'', is_directory = True, size_bytes = 0\<rparr>,
      \<lparr>name = ''fileB'', is_directory = False, size_bytes = 2048\<rparr>])
   = [''dirA'', ''dirB'', ''fileA'', ''fileB'']
   \<and> print_lines [''-rw-r--r-- 1 u g 10 Jan 1 fileA'', [], ''drwxr-xr-x 2 u g 4096 Jan 1 dirA'']
     = Inr [\<lparr>type_str = ''FILE'', name_str = ''fileA'', size_str = ''10 B''\<rparr>,
            \<lparr>type_str = ''DIR'', name_str = ''dirA'', size_str = ''-''\<rparr>]"
  using listings_order [of
     "[\<lparr>name = ''dirB'', is_directory = True, size_bytes = 0\<rparr>,
      \<lparr>name = ''fileA'', is_directory = False, size_bytes = 10\<rparr>,
      \<lparr>name = ''dirA'', is_directory = True, size_bytes = 0\<rparr>,
      \<lparr>name = ''fileB'', is_directory = False, size_bytes = 2048\<rparr>]"
     "[''-rw-r--r-- 1 u g 10 Jan 1 fileA'', [], ''drwxr-xr-x 2 u g 4096 Jan 1 dirA'']"
     "[\<lparr>type_str = ''FILE'', name_str = ''fileA'', size_str = ''10 B''\<rparr>,
       \<lparr>type_str = ''DIR'', name_str = ''dirA'', size_str = ''-''\<rparr>]"]
  by (simp add: std_sort_def compareFiles_def local_list_directory_def render_row_def parse_defs fmt_defs)

section \<open>Properties of the shell loop\<close>

lemma main_loop_not_at_end:
  assumes "main_loop w st = Some y"
  shows "\<not> at_end st"
proof (rule main_loop.raw_induct[where P = "\<lambda>w st y. \<not> at_end st", OF _ assms])
  fix f :: "world \<Rightarrow> shell \<Rightarrow> outcome option" and w st y
  assume IH: "\<And>w st y. f w st = Some y \<Longrightarrow> \<not> at_end st"
    and step: "(let (is, line) = getline (cin st) (command_line st);
          args = split_command line
      in if args = [] then f w (st\<lparr>cin := is, command_line := line\<rparr>)
         else let command = map tolower (args ! 0)
              in if command = ''exit'' then Some (Returned 0)
                 else (case dispatch w command args (ftp_client st) of
                         Inl e \<Rightarrow> Some (Terminated e)
                       | Inr c \<Rightarrow> f w (st\<lparr>cin := is, command_line := line, ftp_client := c\<rparr>))) = Some y"
  show "\<not> at_end st"
  proof
    assume h: "at_end st"
    then have g: "getline (cin st) (command_line st) = ((cin st)\<lparr>failbit := True\<rparr>, command_line st)"
      by (auto simp: getline_def at_end_def)
    from step h g have "f w (st\<lparr>cin := (cin st)\<lparr>failbit := True\<rparr>, command_line := command_line st\<rparr>) = Some y"
      by (simp add: at_end_def)
    from IH[OF this] h show False by (simp add: at_end_def)
  qed
qed

lemma main_loop_at_end: "at_end st \<Longrightarrow> main_loop w st = None"
  using main_loop_not_at_end by (cases "main_loop w st") auto

lemmas loop_defs = start_def getline_def split_command_def tolower_def isspace_def dispatch_def


text \<open>
  C3. The claim: at the end of input the loop ends as it does on \<open>exit\<close>, and the process
  returns 0. The code does not test the result of \<open>std::getline\<close>: on an empty input, and
  after the last line of an input without \<open>exit\<close>, the line read has no token (or is the
  line before) and the loop goes on for ever. On \<open>exit\<close> it returns 0.
\<close>

theorem end_of_input_never_leaves:
  "main_loop w (start []) = None
   \<and> main_loop w (start (''help'' @ [CHR 0x0A])) = None
   \<and> main_loop w (start (''exit'' @ [CHR 0x0A])) = Some (Returned 0)"
proof (intro conjI)
  show "main_loop w (start []) = None"
    by (subst main_loop.simps) (simp add: loop_defs main_loop_at_end at_end_def)
  show "main_loop w (start (''help'' @ [CHR 0x0A])) = None"
    apply (subst main_loop.simps)
    apply (simp add: loop_defs)
    apply (subst main_loop.simps)
    apply (simp add: loop_defs main_loop_at_end at_end_def)
    done
  show "main_loop w (start (''exit'' @ [CHR 0x0A])) = Some (Returned 0)"
    by (subst main_loop.simps) (simp add: loop_defs)
qed

text \<open>
  C7. The claim: a line whose size field cannot be read as an unsigned integer never raises
  an uncaught exception nor aborts the listing. A size field of twenty nines matches the
  expression and \<open>std::stoull\<close> throws \<open>std::out_of_range\<close>; neither \<open>parse_ftp_entry\<close> nor
  \<open>list_directory\<close> nor \<open>main\<close> catches it, so the listing and the process end there.
\<close>

theorem parse_size_out_of_range:
  "parse_ftp_entry ''-rw-r--r-- 1 u g 99999999999999999999 Jan 1 f'' = Inl OutOfRange
   \<and> list_directory (Some (''-rw-r--r-- 1 u g 12 Jan 1 e'' @ [CHR 0x0A]
          @ ''-rw-r--r-- 1 u g 99999999999999999999 Jan 1 f'' @ [CHR 0x0A])) = Inl OutOfRange
   \<and> main_loop \<lparr>listing = (\<lambda>url. Some (''-rw-r--r-- 1 u g 99999999999999999999 Jan 1 f'' @ [CHR 0x0A])),
                 readable = (\<lambda>path. False)\<rparr>
        (start (''connect ftp://host'' @ [CHR 0x0A] @ ''ls'' @ [CHR 0x0A] @ ''exit'' @ [CHR 0x0A]))
      = Some (Terminated OutOfRange)"
proof (intro conjI)
  show "parse_ftp_entry ''-rw-r--r-- 1 u g 99999999999999999999 Jan 1 f'' = Inl OutOfRange"
    by (simp add: parse_defs)
  show "list_directory (Some (''-rw-r--r-- 1 u g 12 Jan 1 e'' @ [CHR 0x0A]
          @ ''-rw-r--r-- 1 u g 99999999999999999999 Jan 1 f'' @ [CHR 0x0A])) = Inl OutOfRange"
    by (simp add: list_directory_def parse_defs render_row_def fmt_defs)
  show "main_loop \<lparr>listing = (\<lambda>url. Some (''-rw-r--r-- 1 u g 99999999999999999999 Jan 1 f'' @ [CHR 0x0A])),
                 readable = (\<lambda>path. False)\<rparr>
        (start (''connect ftp://host'' @ [CHR 0x0A] @ ''ls'' @ [CHR 0x0A] @ ''exit'' @ [CHR 0x0A]))
      = Some (Terminated OutOfRange)"
    apply (subst main_loop.simps)
    apply (simp add: loop_defs cd_defs connect_def new_client_def)
    apply (subst main_loop.simps)
    apply (simp add: loop_defs list_directory_def parse_defs)
    done
qed

lemma filename_trailing_separator: "p \<noteq> [] \<Longrightarrow> last p = CHR ''/'' \<Longrightarrow> filename p = []"
  by (cases p rule: rev_cases) (simp_all add: filename_def)

text \<open>
  C8. The claim: the prompt shows the last segment of the remote base, \<open>a\<close> for
  \<open>ftp://host/a/\<close>. The base ends with a separator, and \<open>filename()\<close> of such a path is
  empty: the remote part of the prompt is empty.
\<close>

theorem prompt_remote_part_empty:
  "filename ''ftp://host/a/'' = []
   \<and> prompt ''/home/user'' ''ftp://host/a/'' = [CHR 0x0A] @ ''local:user | remote:> ''"
  by (simp add: prompt_def filename_def)

end
